theory Spec2Isabelle
  imports Main "HOL-Library.Multiset"
begin

section \<open>Data model of \<^verbatim>\<open>src/app/page.tsx\<close>\<close>

text \<open>
  The TypeScript types \<^verbatim>\<open>Priority\<close>, \<^verbatim>\<open>CardData\<close>, \<^verbatim>\<open>ColumnData\<close> and \<^verbatim>\<open>BoardData\<close>.
  An optional property (\<^verbatim>\<open>description?\<close>, \<^verbatim>\<open>limit?\<close>) and a nullable one
  (\<^verbatim>\<open>priority\<close>, \<^verbatim>\<open>deadline\<close>) are options: the program only ever tests such a
  property for truthiness, so a missing key, \<^verbatim>\<open>undefined\<close> and \<^verbatim>\<open>null\<close> are one value.
  The field \<^verbatim>\<open>id\<close> is always written with its record name, since the unqualified
  name is also the identity function of HOL.
\<close>

datatype Priority = High | Medium | Low

record CardData =
  id :: string
  title :: string
  description :: "string option"
  isCompleted :: bool
  priority :: "Priority option"
  deadline :: "string option"

record ColumnData =
  id :: string
  title :: string
  color :: string
  limit :: "int option"
  cards :: "CardData list"

record BoardData =
  id :: string
  name :: string
  columns :: "ColumnData list"

text \<open>
  The two pieces of React state the operations read and write:
  \<^verbatim>\<open>useState<BoardData[]>\<close> and \<^verbatim>\<open>useState<string | null>\<close>.
\<close>

record KanbanState =
  boards :: "BoardData list"
  activeBoardId :: "string option"

text \<open>
  The argument of \<^verbatim>\<open>addCard\<close>, \<^verbatim>\<open>Omit<CardData, "id" | "isCompleted">\<close>.
\<close>

record NewCardData =
  title :: string
  description :: "string option"
  priority :: "Priority option"
  deadline :: "string option"

text \<open>
  The argument of \<^verbatim>\<open>updateCard\<close>, \<^verbatim>\<open>Partial<Omit<CardData, "id">>\<close>: every key may be
  missing, and the object spread keeps the card's value for a missing key. \<open>None\<close> is
  the missing key, \<open>Some v\<close> a key that carries the value \<open>v\<close>.
\<close>

record CardPatch =
  title :: "string option"
  description :: "string option option"
  isCompleted :: "bool option"
  priority :: "Priority option option"
  deadline :: "string option option"

text \<open>
  The argument of \<^verbatim>\<open>updateColumn\<close>, \<^verbatim>\<open>{ title: string; color: string; limit?: number }\<close>.
  For \<^verbatim>\<open>limit\<close>, \<open>None\<close> is an object without the key, \<open>Some None\<close> the key with the
  value \<^verbatim>\<open>undefined\<close> (what \<^verbatim>\<open>{ title, color, limit }\<close> builds when no limit was
  entered) and \<open>Some (Some n)\<close> the key with a number.
\<close>

record ColumnUpdate =
  title :: string
  color :: string
  limit :: "int option option"

text \<open>
  The drop result handed to \<^verbatim>\<open>onDragEnd\<close>: \<^verbatim>\<open>destination\<close> is \<^verbatim>\<open>null\<close> when the gesture
  was cancelled.
\<close>

record DraggableLocation =
  droppableId :: string
  index :: int

record DropResult =
  destination :: "DraggableLocation option"
  source :: DraggableLocation
  type :: string

section \<open>Sort Policy: \<^verbatim>\<open>sortCards\<close>\<close>

text \<open>The table \<^verbatim>\<open>priorityOrder\<close> and the comparator passed to \<^verbatim>\<open>sort\<close>.\<close>

fun priorityOrder :: "Priority \<Rightarrow> int" where
  "priorityOrder High = 1"
| "priorityOrder Medium = 2"
| "priorityOrder Low = 3"

definition compareCards :: "CardData \<Rightarrow> CardData \<Rightarrow> int" where
  "compareCards a b =
    (if CardData.isCompleted a \<noteq> CardData.isCompleted b
     then (if CardData.isCompleted a then 1 else - 1)
     else case (CardData.priority a, CardData.priority b) of
         (Some pa, Some pb) \<Rightarrow> priorityOrder pa - priorityOrder pb
       | (Some pa, None) \<Rightarrow> - 1
       | (None, Some pb) \<Rightarrow> 1
       | (None, None) \<Rightarrow> 0)"

text \<open>
  \<^verbatim>\<open>Array.prototype.sort\<close> with a comparator is a stable sort: an element stays in
  front of a later one unless the comparator puts it strictly behind. It is written
  here as the insertion of each element, from the right, in front of the first
  element it does not compare greater than.
\<close>

fun insertBy :: "('a \<Rightarrow> 'a \<Rightarrow> int) \<Rightarrow> 'a \<Rightarrow> 'a list \<Rightarrow> 'a list" where
  "insertBy cmp x [] = [x]"
| "insertBy cmp x (y # ys) = (if cmp x y \<le> 0 then x # y # ys else y # insertBy cmp x ys)"

definition arraySort :: "('a \<Rightarrow> 'a \<Rightarrow> int) \<Rightarrow> 'a list \<Rightarrow> 'a list" where
  "arraySort cmp xs = foldr (insertBy cmp) xs []"

definition sortCards :: "CardData list \<Rightarrow> CardData list" where
  "sortCards cards' = arraySort compareCards cards'"

subsection \<open>The ordering of the Sort Policy, in the words of the specification\<close>

text \<open>
  \<open>sortsBefore a b\<close>: one of the three rules puts \<open>a\<close> in front of \<open>b\<close>.
  Two cards are \<open>tied\<close> when no rule separates them, and a sequence is
  \<open>policyOrdered\<close> when no card stands behind one it sorts before.
\<close>

fun priorityBefore :: "Priority \<Rightarrow> Priority \<Rightarrow> bool" where
  "priorityBefore High Medium = True"
| "priorityBefore High Low = True"
| "priorityBefore Medium Low = True"
| "priorityBefore _ _ = False"

definition sortsBefore :: "CardData \<Rightarrow> CardData \<Rightarrow> bool" where
  "sortsBefore a b =
    (if CardData.isCompleted a \<noteq> CardData.isCompleted b then CardData.isCompleted b
     else case (CardData.priority a, CardData.priority b) of
         (Some pa, Some pb) \<Rightarrow> priorityBefore pa pb
       | (Some pa, None) \<Rightarrow> True
       | (None, _) \<Rightarrow> False)"

definition tied :: "CardData \<Rightarrow> CardData \<Rightarrow> bool" where
  "tied a b = (\<not> sortsBefore a b \<and> \<not> sortsBefore b a)"

definition policyOrdered :: "CardData list \<Rightarrow> bool" where
  "policyOrdered cs = sorted_wrt (\<lambda>a b. \<not> sortsBefore b a) cs"

text \<open>
  A rank that realises the ordering: it is used in proofs only, to connect the
  comparator with the sorting functions of the library.
\<close>

definition policyRank :: "CardData \<Rightarrow> nat" where
  "policyRank c =
    (if CardData.isCompleted c then 4 else 0) +
    (case CardData.priority c of
       Some High \<Rightarrow> 0 | Some Medium \<Rightarrow> 1 | Some Low \<Rightarrow> 2 | None \<Rightarrow> 3)"

section \<open>Board Store\<close>

text \<open>
  \<^verbatim>\<open>Date.now()\<close> is an argument \<open>now\<close> of the operations that read the clock, and
  \<open>decimal\<close> is the text a template literal gives for such a number.
\<close>

definition digitChar :: "nat \<Rightarrow> char" where
  "digitChar d =
    (if d = 0 then CHR ''0'' else if d = 1 then CHR ''1'' else if d = 2 then CHR ''2''
     else if d = 3 then CHR ''3'' else if d = 4 then CHR ''4'' else if d = 5 then CHR ''5''
     else if d = 6 then CHR ''6'' else if d = 7 then CHR ''7'' else if d = 8 then CHR ''8''
     else CHR ''9'')"

function decimal :: "nat \<Rightarrow> string" where
  "decimal n = (if n < 10 then [digitChar n] else decimal (n div 10) @ [digitChar (n mod 10)])"
  by pat_completeness auto
termination
  by (relation "measure (\<lambda>n. n)") auto

declare decimal.simps [simp del]

text \<open>\<^verbatim>\<open>const activeBoard = boards.find((b) => b.id === activeBoardId)\<close>\<close>

definition activeBoard :: "KanbanState \<Rightarrow> BoardData option" where
  "activeBoard st = find (\<lambda>b. Some (BoardData.id b) = activeBoardId st) (boards st)"

text \<open>\<^verbatim>\<open>updateBoardData\<close> calls \<^verbatim>\<open>setBoards(updateFn(boards))\<close> and nothing else.\<close>

definition updateBoardData :: "(BoardData list \<Rightarrow> BoardData list) \<Rightarrow> KanbanState \<Rightarrow> KanbanState" where
  "updateBoardData updateFn st = st\<lparr>boards := updateFn (boards st)\<rparr>"

definition addColumn :: "KanbanState \<Rightarrow> nat \<Rightarrow> string \<Rightarrow> string \<Rightarrow> int option \<Rightarrow> KanbanState" where
  "addColumn st now title' color' limit' =
    updateBoardData
      (map (\<lambda>board.
        if Some (BoardData.id board) = activeBoardId st
        then let newColumn =
                   \<lparr>ColumnData.id = ''col-'' @ decimal now, title = title', color = color',
                    limit = limit', cards = []\<rparr>
             in board\<lparr>columns := columns board @ [newColumn]\<rparr>
        else board))
      st"

text \<open>The object spread \<^verbatim>\<open>{ ...col, ...updatedData }\<close>.\<close>

definition spreadColumn :: "ColumnData \<Rightarrow> ColumnUpdate \<Rightarrow> ColumnData" where
  "spreadColumn col updatedData =
    col\<lparr>ColumnData.title := ColumnUpdate.title updatedData,
        ColumnData.color := ColumnUpdate.color updatedData,
        ColumnData.limit :=
          (case ColumnUpdate.limit updatedData of
             None \<Rightarrow> ColumnData.limit col
           | Some l \<Rightarrow> l)\<rparr>"

definition updateColumn :: "KanbanState \<Rightarrow> string \<Rightarrow> ColumnUpdate \<Rightarrow> KanbanState" where
  "updateColumn st columnId updatedData =
    updateBoardData
      (map (\<lambda>board.
        if Some (BoardData.id board) = activeBoardId st
        then let newColumns =
                   map (\<lambda>col. if ColumnData.id col = columnId
                               then spreadColumn col updatedData else col)
                     (columns board)
             in board\<lparr>columns := newColumns\<rparr>
        else board))
      st"

text \<open>\<^verbatim>\<open>{ ...cardData, id: `card-${Date.now()}`, isCompleted: false }\<close>\<close>

definition newCard :: "nat \<Rightarrow> NewCardData \<Rightarrow> CardData" where
  "newCard now cardData =
    \<lparr>CardData.id = ''card-'' @ decimal now,
     title = NewCardData.title cardData,
     description = NewCardData.description cardData,
     isCompleted = False,
     priority = NewCardData.priority cardData,
     deadline = NewCardData.deadline cardData\<rparr>"

definition addCard :: "KanbanState \<Rightarrow> nat \<Rightarrow> string \<Rightarrow> NewCardData \<Rightarrow> KanbanState" where
  "addCard st now columnId cardData =
    updateBoardData
      (map (\<lambda>board.
        if Some (BoardData.id board) = activeBoardId st
        then let newColumns =
                   map (\<lambda>col. if ColumnData.id col = columnId
                               then col\<lparr>cards := sortCards (newCard now cardData # cards col)\<rparr>
                               else col)
                     (columns board)
             in board\<lparr>columns := newColumns\<rparr>
        else board))
      st"

text \<open>The object spread \<^verbatim>\<open>{ ...card, ...updatedData }\<close>.\<close>

definition spreadCard :: "CardData \<Rightarrow> CardPatch \<Rightarrow> CardData" where
  "spreadCard card' updatedData =
    card'\<lparr>CardData.title :=
           (case CardPatch.title updatedData of None \<Rightarrow> CardData.title card' | Some v \<Rightarrow> v),
         CardData.description :=
           (case CardPatch.description updatedData of
              None \<Rightarrow> CardData.description card' | Some v \<Rightarrow> v),
         CardData.isCompleted :=
           (case CardPatch.isCompleted updatedData of
              None \<Rightarrow> CardData.isCompleted card' | Some v \<Rightarrow> v),
         CardData.priority :=
           (case CardPatch.priority updatedData of
              None \<Rightarrow> CardData.priority card' | Some v \<Rightarrow> v),
         CardData.deadline :=
           (case CardPatch.deadline updatedData of
              None \<Rightarrow> CardData.deadline card' | Some v \<Rightarrow> v)\<rparr>"

definition updateCard :: "KanbanState \<Rightarrow> string \<Rightarrow> string \<Rightarrow> CardPatch \<Rightarrow> KanbanState" where
  "updateCard st columnId cardId updatedData =
    updateBoardData
      (map (\<lambda>board.
        if Some (BoardData.id board) = activeBoardId st
        then let newColumns =
                   map (\<lambda>col.
                     if ColumnData.id col = columnId
                     then let newCards =
                                map (\<lambda>card'. if CardData.id card' = cardId
                                             then spreadCard card' updatedData else card')
                                  (cards col)
                          in col\<lparr>cards := sortCards newCards\<rparr>
                     else col)
                     (columns board)
             in board\<lparr>columns := newColumns\<rparr>
        else board))
      st"

definition deleteCard :: "KanbanState \<Rightarrow> string \<Rightarrow> string \<Rightarrow> KanbanState" where
  "deleteCard st columnId cardId =
    updateBoardData
      (map (\<lambda>board.
        if Some (BoardData.id board) = activeBoardId st
        then let newColumns =
                   map (\<lambda>col.
                     if ColumnData.id col = columnId
                     then col\<lparr>cards := filter (\<lambda>card'. CardData.id card' \<noteq> cardId) (cards col)\<rparr>
                     else col)
                     (columns board)
             in board\<lparr>columns := newColumns\<rparr>
        else board))
      st"

definition deleteColumn :: "KanbanState \<Rightarrow> string \<Rightarrow> KanbanState" where
  "deleteColumn st columnId =
    updateBoardData
      (map (\<lambda>board.
        if Some (BoardData.id board) = activeBoardId st
        then board\<lparr>columns := filter (\<lambda>c. ColumnData.id c \<noteq> columnId) (columns board)\<rparr>
        else board))
      st"

text \<open>
  \<^verbatim>\<open>newBoards[0]?.id || null\<close>: \<^verbatim>\<open>null\<close> when there is no first board, and also when
  its id is the empty string, which is falsy.
\<close>

definition firstIdOrNull :: "BoardData list \<Rightarrow> string option" where
  "firstIdOrNull newBoards =
    (case newBoards of
       [] \<Rightarrow> None
     | b # _ \<Rightarrow> if BoardData.id b = [] then None else Some (BoardData.id b))"

definition deleteBoard :: "KanbanState \<Rightarrow> string \<Rightarrow> KanbanState" where
  "deleteBoard st boardId =
    (let newBoards = filter (\<lambda>b. BoardData.id b \<noteq> boardId) (boards st)
     in \<lparr>boards = newBoards,
         activeBoardId =
           (if activeBoardId st = Some boardId then firstIdOrNull newBoards
            else activeBoardId st)\<rparr>)"

section \<open>Drag Reducer: \<^verbatim>\<open>onDragEnd\<close>\<close>

text \<open>
  \<^verbatim>\<open>Array.prototype.splice\<close>. A negative start counts from the end, and a start
  beyond the array is the array's length. \<^verbatim>\<open>const [x] = xs.splice(start, 1)\<close> removes
  one element and binds it to \<open>x\<close>; when the start is the length nothing is removed
  and \<open>x\<close> is \<^verbatim>\<open>undefined\<close>, here \<open>None\<close>. \<^verbatim>\<open>xs.splice(start, 0, x)\<close> inserts \<open>x\<close>.
\<close>

definition relativeStart :: "int \<Rightarrow> nat \<Rightarrow> nat" where
  "relativeStart start len =
    (if start < 0 then nat (max (int len + start) 0) else min (nat start) len)"

definition spliceRemove :: "'a list \<Rightarrow> int \<Rightarrow> 'a option \<times> 'a list" where
  "spliceRemove xs start =
    (let k = relativeStart start (length xs)
     in if k < length xs then (Some (xs ! k), take k xs @ drop (Suc k) xs) else (None, xs))"

definition spliceInsert :: "'a list \<Rightarrow> int \<Rightarrow> 'a \<Rightarrow> 'a list" where
  "spliceInsert xs start x =
    (let k = relativeStart start (length xs) in take k xs @ x # drop k xs)"

text \<open>
  What one call of \<^verbatim>\<open>onDragEnd\<close> does: it returns before \<^verbatim>\<open>setBoards\<close>, or it calls
  \<^verbatim>\<open>setBoards\<close> with a new collection. When the source index is outside the array,
  the spliced element is \<^verbatim>\<open>undefined\<close> and the handler stores it in the array of
  the active board, which is then no \<^verbatim>\<open>BoardData\<close>: that outcome lists the new
  collection with \<open>None\<close> in the place of every such board.
\<close>

datatype DragOutcome =
    NoUpdate
  | SetBoards "BoardData list"
  | SetBoardsUndefined "BoardData option list"

text \<open>\<^verbatim>\<open>newBoards.map((b) => (b.id === activeBoardId ? updatedBoard : b))\<close>\<close>

definition replaceActive :: "KanbanState \<Rightarrow> BoardData \<Rightarrow> BoardData list" where
  "replaceActive st updatedBoard =
    map (\<lambda>b. if Some (BoardData.id b) = activeBoardId st then updatedBoard else b) (boards st)"

definition replaceActiveUndefined :: "KanbanState \<Rightarrow> BoardData option list" where
  "replaceActiveUndefined st =
    map (\<lambda>b. if Some (BoardData.id b) = activeBoardId st then None else Some b) (boards st)"

text \<open>The branch \<^verbatim>\<open>type === "COLUMN"\<close>.\<close>

definition reorderColumn :: "KanbanState \<Rightarrow> BoardData \<Rightarrow> int \<Rightarrow> int \<Rightarrow> DragOutcome" where
  "reorderColumn st currentBoard sourceIndex destinationIndex =
    (case spliceRemove (columns currentBoard) sourceIndex of
       (None, _) \<Rightarrow> SetBoardsUndefined (replaceActiveUndefined st)
     | (Some reorderedColumn, newColumnOrder) \<Rightarrow>
         let updatedBoard =
               currentBoard\<lparr>columns := spliceInsert newColumnOrder destinationIndex reorderedColumn\<rparr>
         in SetBoards (replaceActive st updatedBoard))"

text \<open>The branch \<^verbatim>\<open>startCol === finishCol\<close>.\<close>

definition reorderCard ::
  "KanbanState \<Rightarrow> BoardData \<Rightarrow> ColumnData \<Rightarrow> int \<Rightarrow> int \<Rightarrow> DragOutcome" where
  "reorderCard st currentBoard startCol sourceIndex destinationIndex =
    (case spliceRemove (cards startCol) sourceIndex of
       (None, _) \<Rightarrow> SetBoardsUndefined (replaceActiveUndefined st)
     | (Some reorderedCard, newCards) \<Rightarrow>
         let newCol = startCol\<lparr>cards := sortCards (spliceInsert newCards destinationIndex reorderedCard)\<rparr>;
             newColumns =
               map (\<lambda>c. if ColumnData.id c = ColumnData.id newCol then newCol else c)
                 (columns currentBoard);
             updatedBoard = currentBoard\<lparr>columns := newColumns\<rparr>
         in SetBoards (replaceActive st updatedBoard))"

text \<open>The last branch: the card moves to another column.\<close>

definition moveCard ::
  "KanbanState \<Rightarrow> BoardData \<Rightarrow> ColumnData \<Rightarrow> ColumnData \<Rightarrow> int \<Rightarrow> int \<Rightarrow> DragOutcome" where
  "moveCard st currentBoard startCol finishCol sourceIndex destinationIndex =
    (case spliceRemove (cards startCol) sourceIndex of
       (None, _) \<Rightarrow> SetBoardsUndefined (replaceActiveUndefined st)
     | (Some movedCard, startCards) \<Rightarrow>
         let newStartCol = startCol\<lparr>cards := sortCards startCards\<rparr>;
             newFinishCol =
               finishCol\<lparr>cards := sortCards (spliceInsert (cards finishCol) destinationIndex movedCard)\<rparr>;
             newColumns =
               map (\<lambda>c. if ColumnData.id c = ColumnData.id newStartCol then newStartCol
                         else if ColumnData.id c = ColumnData.id newFinishCol then newFinishCol
                         else c)
                 (columns currentBoard);
             updatedBoard = currentBoard\<lparr>columns := newColumns\<rparr>
         in SetBoards (replaceActive st updatedBoard))"

text \<open>
  \<^verbatim>\<open>startCol === finishCol\<close> compares two objects found in one array by their ids:
  they are the same object exactly when they are equal as values, since two
  different elements found this way have different ids.
\<close>

definition onDragEnd :: "KanbanState \<Rightarrow> DropResult \<Rightarrow> DragOutcome" where
  "onDragEnd st result =
    (case destination result of
       None \<Rightarrow> NoUpdate
     | Some dest \<Rightarrow>
         if droppableId dest = droppableId (source result) \<and> index dest = index (source result)
         then NoUpdate
         else
           (case find (\<lambda>b. Some (BoardData.id b) = activeBoardId st) (boards st) of
              None \<Rightarrow> NoUpdate
            | Some currentBoard \<Rightarrow>
                if type result = ''COLUMN''
                then reorderColumn st currentBoard (index (source result)) (index dest)
                else
                  (case find (\<lambda>c. ColumnData.id c = droppableId (source result))
                          (columns currentBoard) of
                     None \<Rightarrow> NoUpdate
                   | Some startCol \<Rightarrow>
                       (case find (\<lambda>c. ColumnData.id c = droppableId dest)
                               (columns currentBoard) of
                          None \<Rightarrow> NoUpdate
                        | Some finishCol \<Rightarrow>
                            if startCol = finishCol
                            then reorderCard st currentBoard startCol
                                   (index (source result)) (index dest)
                            else moveCard st currentBoard startCol finishCol
                                   (index (source result)) (index dest)))))"

text \<open>
  The state after the handler, when it is one: \<^verbatim>\<open>setBoards\<close> writes the collection
  and the pointer to the active board is not written.
\<close>

definition stateAfter :: "KanbanState \<Rightarrow> DragOutcome \<Rightarrow> KanbanState option" where
  "stateAfter st outcome =
    (case outcome of
       NoUpdate \<Rightarrow> Some st
     | SetBoards newBoards \<Rightarrow> Some (st\<lparr>boards := newBoards\<rparr>)
     | SetBoardsUndefined _ \<Rightarrow> None)"

section \<open>Predicates and example states used in the statements\<close>

text \<open>
  The scenario of the specification: a board whose column "To Do" holds Card A
  (High, incomplete) and Card B (Low, incomplete), a Card C without priority to be
  added, and the update that marks a card completed. \<open>scenarioState cs\<close> is the
  collection with that one board, active, and the cards \<open>cs\<close> in the column.
\<close>

definition cardA :: CardData where
  "cardA = \<lparr>CardData.id = ''a'', title = ''Card A'', description = None, isCompleted = False,
            priority = Some High, deadline = None\<rparr>"

definition cardB :: CardData where
  "cardB = \<lparr>CardData.id = ''b'', title = ''Card B'', description = None, isCompleted = False,
            priority = Some Low, deadline = None\<rparr>"

definition cardC :: NewCardData where
  "cardC = \<lparr>NewCardData.title = ''Card C'', description = None, priority = None, deadline = None\<rparr>"

definition markCompleted :: CardPatch where
  "markCompleted = \<lparr>CardPatch.title = None, description = None, isCompleted = Some True,
                    priority = None, deadline = None\<rparr>"

definition toDoColumn :: "CardData list \<Rightarrow> ColumnData" where
  "toDoColumn cs = \<lparr>ColumnData.id = ''col-1'', title = ''To Do'', color = ''bg-rose-500/20'',
                    limit = None, cards = cs\<rparr>"

definition scenarioState :: "CardData list \<Rightarrow> KanbanState" where
  "scenarioState cs =
    \<lparr>boards = [\<lparr>BoardData.id = ''board-1'', name = ''Project'', columns = [toDoColumn cs]\<rparr>],
     activeBoardId = Some ''board-1''\<rparr>"

text \<open>
  What it means for an id an operation refers to to be present: the pointer to the
  active board is the id of a board, a column id is the id of a column of a board
  with the id of the pointer, a card id is the id of a card of such a column, a
  board id is the id of a board.
\<close>

definition activeBoardPresent :: "KanbanState \<Rightarrow> bool" where
  "activeBoardPresent st = (\<exists>b \<in> set (boards st). Some (BoardData.id b) = activeBoardId st)"

definition columnPresent :: "KanbanState \<Rightarrow> string \<Rightarrow> bool" where
  "columnPresent st columnId =
    (\<exists>b \<in> set (boards st). Some (BoardData.id b) = activeBoardId st
        \<and> (\<exists>c \<in> set (columns b). ColumnData.id c = columnId))"

definition cardPresent :: "KanbanState \<Rightarrow> string \<Rightarrow> string \<Rightarrow> bool" where
  "cardPresent st columnId cardId =
    (\<exists>b \<in> set (boards st). Some (BoardData.id b) = activeBoardId st
        \<and> (\<exists>c \<in> set (columns b). ColumnData.id c = columnId
              \<and> (\<exists>k \<in> set (cards c). CardData.id k = cardId)))"

definition boardPresent :: "KanbanState \<Rightarrow> string \<Rightarrow> bool" where
  "boardPresent st boardId = (\<exists>b \<in> set (boards st). BoardData.id b = boardId)"

text \<open>
  Every column with the id given, in a board with the id of the pointer, has its
  cards ordered per the Sort Policy.
\<close>

definition columnOrdered :: "KanbanState \<Rightarrow> string \<Rightarrow> bool" where
  "columnOrdered st columnId =
    (\<forall>b \<in> set (boards st). Some (BoardData.id b) = activeBoardId st \<longrightarrow>
       (\<forall>c \<in> set (columns b). ColumnData.id c = columnId \<longrightarrow> policyOrdered (cards c)))"

text \<open>A completed card, for the example states.\<close>

definition cardDone :: CardData where
  "cardDone = \<lparr>CardData.id = ''d'', title = ''Card D'', description = None, isCompleted = True,
               priority = Some Low, deadline = None\<rparr>"

text \<open>
  The column the code finds under an id,
  \<^verbatim>\<open>columns.find((c) => c.id === columnId)\<close>: the first one with that id.
\<close>

definition columnOf :: "BoardData \<Rightarrow> string \<Rightarrow> ColumnData option" where
  "columnOf b columnId = find (\<lambda>c. ColumnData.id c = columnId) (columns b)"

text \<open>
  An update of a column with a new title and colour; the argument is its \<^verbatim>\<open>limit\<close>.
\<close>

definition renameUpdate :: "int option option \<Rightarrow> ColumnUpdate" where
  "renameUpdate l = \<lparr>ColumnUpdate.title = ''Next'', color = ''bg-sky-500/20'', limit = l\<rparr>"

text \<open>
  A drop of type \<^verbatim>\<open>CARD\<close> from a column and index, cancelled or onto a column and
  index.
\<close>

definition cardDrop :: "string \<Rightarrow> int \<Rightarrow> (string \<times> int) option \<Rightarrow> DropResult" where
  "cardDrop fromId fromIndex dest =
    \<lparr>destination =
       (case dest of
          None \<Rightarrow> None
        | Some (toId, toIndex) \<Rightarrow> Some \<lparr>droppableId = toId, index = toIndex\<rparr>),
     source = \<lparr>droppableId = fromId, index = fromIndex\<rparr>,
     type = ''CARD''\<rparr>"

text \<open>A board without columns.\<close>

definition plainBoard :: "string \<Rightarrow> BoardData" where
  "plainBoard i = \<lparr>BoardData.id = i, name = ''Board'', columns = []\<rparr>"

text \<open>
  How \<open>updateColumn\<close> relates a column \<open>c\<close> to the column \<open>c'\<close> at its place
  afterwards, and a board \<open>b\<close> to the board \<open>b'\<close> at its place afterwards.
\<close>

definition columnUpdated :: "string \<Rightarrow> ColumnUpdate \<Rightarrow> ColumnData \<Rightarrow> ColumnData \<Rightarrow> bool" where
  "columnUpdated columnId u c c' =
    (if ColumnData.id c = columnId
     then ColumnData.id c' = ColumnData.id c \<and> cards c' = cards c
        \<and> ColumnData.title c' = ColumnUpdate.title u
        \<and> ColumnData.color c' = ColumnUpdate.color u
        \<and> ColumnData.limit c' =
            (case ColumnUpdate.limit u of None \<Rightarrow> ColumnData.limit c | Some l \<Rightarrow> l)
     else c' = c)"

definition boardColumnsUpdated ::
  "string option \<Rightarrow> string \<Rightarrow> ColumnUpdate \<Rightarrow> BoardData \<Rightarrow> BoardData \<Rightarrow> bool" where
  "boardColumnsUpdated active columnId u b b' =
    (if Some (BoardData.id b) = active
     then BoardData.id b' = BoardData.id b \<and> name b' = name b
        \<and> list_all2 (columnUpdated columnId u) (columns b) (columns b')
     else b' = b)"

text \<open>
  A collection of two boards, the first one active: it has the column \<^verbatim>\<open>col-1\<close>
  with Card A and the limit 5, and the column \<^verbatim>\<open>col-2\<close> with the completed card.
\<close>

definition limitedState :: KanbanState where
  "limitedState =
    \<lparr>boards =
       [\<lparr>BoardData.id = ''board-1'', name = ''Project'',
         columns = [(toDoColumn [cardA])\<lparr>ColumnData.limit := Some 5\<rparr>,
                    \<lparr>ColumnData.id = ''col-2'', title = ''Done'', color = ''bg-teal-500/20'',
                     limit = None, cards = [cardDone]\<rparr>]\<rparr>,
        plainBoard ''board-2''],
     activeBoardId = Some ''board-1''\<rparr>"

text \<open>
  The frame of an operation: \<open>othersKept\<close> relates two collections of the same
  length in which every board whose id is not the pointer stands unchanged at its
  place; \<open>framed\<close> adds that the pointer is the same; \<open>dragFramed\<close> says the same
  of the collection an outcome of the drag reducer hands to \<^verbatim>\<open>setBoards\<close>.
\<close>

definition othersKept :: "string option \<Rightarrow> BoardData list \<Rightarrow> BoardData list \<Rightarrow> bool" where
  "othersKept active bs bs' =
    list_all2 (\<lambda>b b'. Some (BoardData.id b) \<noteq> active \<longrightarrow> b' = b) bs bs'"

definition framed :: "KanbanState \<Rightarrow> KanbanState \<Rightarrow> bool" where
  "framed st st' =
    (activeBoardId st' = activeBoardId st
     \<and> othersKept (activeBoardId st) (boards st) (boards st'))"

definition dragFramed :: "KanbanState \<Rightarrow> DragOutcome \<Rightarrow> bool" where
  "dragFramed st outcome =
    (case outcome of
       NoUpdate \<Rightarrow> True
     | SetBoards bs \<Rightarrow> othersKept (activeBoardId st) (boards st) bs
     | SetBoardsUndefined obs \<Rightarrow>
         list_all2 (\<lambda>b ob. Some (BoardData.id b) \<noteq> activeBoardId st \<longrightarrow> ob = Some b)
           (boards st) obs)"

text \<open>
  How \<open>deleteCard\<close> relates a column \<open>c\<close> of the active board to the column \<open>c'\<close>
  at its place afterwards: a column with the id given loses the cards with the card
  id given and is otherwise the same, and a column with another id is unchanged.
\<close>

definition cardRemoved :: "string \<Rightarrow> string \<Rightarrow> ColumnData \<Rightarrow> ColumnData \<Rightarrow> bool" where
  "cardRemoved columnId cardId c c' =
    (if ColumnData.id c = columnId
     then c' = c\<lparr>cards := filter (\<lambda>k. CardData.id k \<noteq> cardId) (cards c)\<rparr>
     else c' = c)"

text \<open>The sum of the card counts over the columns of a board.\<close>

definition cardCount :: "BoardData \<Rightarrow> nat" where
  "cardCount b = sum_list (map (\<lambda>c. length (cards c)) (columns b))"

text \<open>
  A board in which two columns share the id \<^verbatim>\<open>col-1\<close>: data of this shape is accepted
  by the import and by the load from storage, which check no id.
\<close>

definition doneColumn :: "CardData list \<Rightarrow> ColumnData" where
  "doneColumn cs = \<lparr>ColumnData.id = ''col-2'', title = ''Done'', color = ''bg-teal-500/20'',
                    limit = None, cards = cs\<rparr>"

definition projectBoard :: "ColumnData list \<Rightarrow> BoardData" where
  "projectBoard cs = \<lparr>BoardData.id = ''board-1'', name = ''Project'', columns = cs\<rparr>"

definition duplicateIdState :: KanbanState where
  "duplicateIdState =
    \<lparr>boards = [projectBoard [toDoColumn [cardA], toDoColumn [cardB], doneColumn []]],
     activeBoardId = Some ''board-1''\<rparr>"

section \<open>Properties of the Sort Policy\<close>

lemma compareCards_le_rank: "compareCards a b \<le> 0 \<longleftrightarrow> policyRank a \<le> policyRank b"
  by (simp add: compareCards_def policyRank_def split: option.split Priority.split)

lemma compareCards_consistent:
  "compareCards a b < 0 \<longleftrightarrow> policyRank a < policyRank b"
  "compareCards a b = 0 \<longleftrightarrow> policyRank a = policyRank b"
  by (simp_all add: compareCards_def policyRank_def split: option.split Priority.split)

lemma sortsBefore_rank: "sortsBefore a b \<longleftrightarrow> policyRank a < policyRank b"
  by (simp add: sortsBefore_def policyRank_def split: option.split Priority.split)

lemma tied_rank: "tied a b \<longleftrightarrow> policyRank a = policyRank b"
  by (auto simp: tied_def sortsBefore_rank)

lemma insertBy_compareCards: "insertBy compareCards x xs = insort_key policyRank x xs"
  by (induction xs) (simp_all add: compareCards_le_rank)

lemma sortCards_sort_key: "sortCards xs = sort_key policyRank xs"
proof -
  have "insertBy compareCards = insort_key policyRank"
    by (intro ext) (rule insertBy_compareCards)
  then show ?thesis
    by (simp add: sortCards_def arraySort_def sort_key_def)
qed

lemma policyOrdered_rank: "policyOrdered cs \<longleftrightarrow> sorted (map policyRank cs)"
  by (simp add: policyOrdered_def sortsBefore_rank sorted_map not_less)

lemma policyOrdered_sortCards: "policyOrdered (sortCards xs)"
  by (simp add: policyOrdered_rank sortCards_sort_key)

lemma mset_sortCards: "mset (sortCards xs) = mset xs"
  by (simp add: sortCards_sort_key)

lemma length_sortCards: "length (sortCards xs) = length xs"
  by (simp add: sortCards_sort_key)

lemma sortCards_ordered_id: "policyOrdered xs \<Longrightarrow> sortCards xs = xs"
  by (simp add: policyOrdered_rank sortCards_sort_key sort_key_id_if_sorted)

lemma sortCards_keeps_tied: "filter (tied c) (sortCards xs) = filter (tied c) xs"
proof -
  have "filter (\<lambda>d. policyRank d = policyRank c) (sort_key policyRank xs)
      = filter (\<lambda>d. policyRank d = policyRank c) xs"
    by (rule sort_key_stable)
  moreover have "tied c = (\<lambda>d. policyRank d = policyRank c)"
    by (auto simp: tied_rank)
  ultimately show ?thesis
    by (simp add: sortCards_sort_key)
qed

text \<open>
  C1. For every sequence of cards, \<open>sortCards\<close> returns the stable sort of the
  sequence under the Sort Policy ordering: the result has the same cards, no card
  stands behind a card it sorts before (incomplete before completed, then a set
  priority before none, then High before Medium before Low), and the cards tied
  with any given card appear in the order they had in the input.
\<close>

theorem sortCards_stable_sort:
  "mset (sortCards xs) = mset xs
   \<and> sorted_wrt (\<lambda>a b. \<not> sortsBefore b a) (sortCards xs)
   \<and> filter (tied c) (sortCards xs) = filter (tied c) xs"
  using policyOrdered_sortCards [of xs]
  by (simp add: mset_sortCards sortCards_keeps_tied policyOrdered_def)

text \<open>
  C8. The Sort Policy is idempotent: sorting a sorted sequence of cards gives it back.
\<close>

theorem sortCards_idempotent: "sortCards (sortCards xs) = sortCards xs"
  by (rule sortCards_ordered_id) (rule policyOrdered_sortCards)

section \<open>The scenario of the specification\<close>

lemma sortCards_simps:
  "sortCards [] = []"
  "sortCards (x # xs) = insertBy compareCards x (sortCards xs)"
  by (simp_all add: sortCards_def arraySort_def)

text \<open>
  C6. The column "To Do" of the active board holds Card A (High, incomplete) and
  then Card B (Low, incomplete). Adding Card C without a priority gives the order
  A, B, C, and marking Card A completed in that state gives the order B, C, A.
  This holds whatever the clock reads when Card C is created.
\<close>

theorem scenario_add_then_complete:
  "addCard (scenarioState [cardA, cardB]) now ''col-1'' cardC
     = scenarioState [cardA, cardB, newCard now cardC]
   \<and> updateCard (scenarioState [cardA, cardB, newCard now cardC]) ''col-1'' ''a'' markCompleted
     = scenarioState [cardB, newCard now cardC, cardA\<lparr>CardData.isCompleted := True\<rparr>]"
  by (simp add: addCard_def updateCard_def updateBoardData_def scenarioState_def toDoColumn_def
      cardA_def cardB_def cardC_def newCard_def markCompleted_def spreadCard_def
      sortCards_simps compareCards_def)

section \<open>Stale references\<close>

lemma updateBoardData_same: "f (boards st) = boards st \<Longrightarrow> updateBoardData f st = st"
  by (simp add: updateBoardData_def)

lemma board_columns_same: "cs = columns b \<Longrightarrow> b\<lparr>columns := cs\<rparr> = b"
  by simp

lemma column_cards_same: "ks = cards c \<Longrightarrow> c\<lparr>cards := ks\<rparr> = c"
  by simp

lemma map_if_miss: "\<forall>x \<in> set xs. \<not> P x \<Longrightarrow> map (\<lambda>x. if P x then f x else x) xs = xs"
  by (induction xs) auto

lemma map_active_same:
  "(\<And>b. b \<in> set bs \<Longrightarrow> Some (BoardData.id b) = a \<Longrightarrow> f b = b)
    \<Longrightarrow> map (\<lambda>b. if Some (BoardData.id b) = a then f b else b) bs = bs"
  by (rule map_idI) auto

lemma columnPresent_miss:
  "\<not> columnPresent st columnId \<Longrightarrow> b \<in> set (boards st)
    \<Longrightarrow> Some (BoardData.id b) = activeBoardId st
    \<Longrightarrow> \<forall>c \<in> set (columns b). \<not> ColumnData.id c = columnId"
  by (auto simp: columnPresent_def)

lemma addColumn_miss: "\<not> activeBoardPresent st \<Longrightarrow> addColumn st now t c l = st"
  unfolding addColumn_def
  by (rule updateBoardData_same, rule map_idI) (auto simp: activeBoardPresent_def)

lemma updateColumn_miss: "\<not> columnPresent st columnId \<Longrightarrow> updateColumn st columnId u = st"
  unfolding updateColumn_def Let_def
  by (rule updateBoardData_same, rule map_active_same)
     (simp add: map_if_miss [OF columnPresent_miss])

lemma deleteColumn_miss: "\<not> columnPresent st columnId \<Longrightarrow> deleteColumn st columnId = st"
  unfolding deleteColumn_def
  by (rule updateBoardData_same, rule map_active_same)
     (auto simp: filter_id_conv dest: columnPresent_miss)

lemma addCard_miss: "\<not> columnPresent st columnId \<Longrightarrow> addCard st now columnId d = st"
  unfolding addCard_def Let_def
  by (rule updateBoardData_same, rule map_active_same)
     (simp add: map_if_miss [OF columnPresent_miss])

lemma updateCard_column_miss:
  "\<not> columnPresent st columnId \<Longrightarrow> updateCard st columnId cardId p = st"
  unfolding updateCard_def Let_def
  by (rule updateBoardData_same, rule map_active_same)
     (simp add: map_if_miss [OF columnPresent_miss])

lemma updateCard_card_miss:
  assumes "\<not> cardPresent st columnId cardId" and "columnOrdered st columnId"
  shows "updateCard st columnId cardId p = st"
  unfolding updateCard_def Let_def
proof (rule updateBoardData_same, rule map_active_same)
  fix b
  assume b: "b \<in> set (boards st)" "Some (BoardData.id b) = activeBoardId st"
  have "(if ColumnData.id c = columnId
         then c\<lparr>cards := sortCards (map (\<lambda>card'. if CardData.id card' = cardId
                 then spreadCard card' p else card') (cards c))\<rparr>
         else c) = c" if c: "c \<in> set (columns b)" for c
  proof (cases "ColumnData.id c = columnId")
    case True
    from assms(1) b c True have "\<forall>k \<in> set (cards c). \<not> CardData.id k = cardId"
      by (auto simp: cardPresent_def)
    then have "map (\<lambda>card'. if CardData.id card' = cardId then spreadCard card' p else card')
                 (cards c) = cards c"
      by (rule map_if_miss)
    moreover from assms(2) b c True have "policyOrdered (cards c)"
      by (auto simp: columnOrdered_def)
    ultimately show ?thesis
      using True by (simp add: sortCards_ordered_id)
  next
    case False
    then show ?thesis by simp
  qed
  then have "map (\<lambda>col. if ColumnData.id col = columnId
         then col\<lparr>cards := sortCards (map (\<lambda>card'. if CardData.id card' = cardId
                 then spreadCard card' p else card') (cards col))\<rparr>
         else col) (columns b) = columns b"
    by (intro map_idI)
  then show "b\<lparr>columns := map (\<lambda>col. if ColumnData.id col = columnId
         then col\<lparr>cards := sortCards (map (\<lambda>card'. if CardData.id card' = cardId
                 then spreadCard card' p else card') (cards col))\<rparr>
         else col) (columns b)\<rparr> = b"
    by simp
qed

lemma deleteCard_miss:
  assumes "\<not> cardPresent st columnId cardId"
  shows "deleteCard st columnId cardId = st"
  unfolding deleteCard_def Let_def
proof (rule updateBoardData_same, rule map_active_same)
  fix b
  assume b: "b \<in> set (boards st)" "Some (BoardData.id b) = activeBoardId st"
  have "(if ColumnData.id c = columnId
         then c\<lparr>cards := filter (\<lambda>card'. CardData.id card' \<noteq> cardId) (cards c)\<rparr>
         else c) = c" if c: "c \<in> set (columns b)" for c
  proof (cases "ColumnData.id c = columnId")
    case True
    from assms b c True have "\<forall>k \<in> set (cards c). CardData.id k \<noteq> cardId"
      by (auto simp: cardPresent_def)
    then have "filter (\<lambda>card'. CardData.id card' \<noteq> cardId) (cards c) = cards c"
      by (simp add: filter_id_conv)
    then show ?thesis by simp
  next
    case False
    then show ?thesis by simp
  qed
  then have "map (\<lambda>col. if ColumnData.id col = columnId
         then col\<lparr>cards := filter (\<lambda>card'. CardData.id card' \<noteq> cardId) (cards col)\<rparr>
         else col) (columns b) = columns b"
    by (intro map_idI)
  then show "b\<lparr>columns := map (\<lambda>col. if ColumnData.id col = columnId
         then col\<lparr>cards := filter (\<lambda>card'. CardData.id card' \<noteq> cardId) (cards col)\<rparr>
         else col) (columns b)\<rparr> = b"
    by simp
qed

lemma deleteBoard_miss_boards:
  "\<not> boardPresent st boardId \<Longrightarrow> boards (deleteBoard st boardId) = boards st"
  by (auto simp: deleteBoard_def boardPresent_def Let_def filter_id_conv)

lemma deleteBoard_miss:
  "\<not> boardPresent st boardId \<Longrightarrow> activeBoardId st \<noteq> Some boardId \<Longrightarrow> deleteBoard st boardId = st"
  by (auto simp: deleteBoard_def boardPresent_def Let_def filter_id_conv)

text \<open>
  C2, as amended. An operation of the Board Store returns its input unchanged when
  an id it refers to is not present: the active board for \<open>addColumn\<close>, the
  column of the active board for \<open>updateColumn\<close>, \<open>deleteColumn\<close>, \<open>addCard\<close> and
  \<open>updateCard\<close>, the card of that column for \<open>deleteCard\<close>, the board for
  \<open>deleteBoard\<close> (whose pointer to the active board is also unchanged unless it
  is the id given). For \<open>updateCard\<close> with a column that is present and a card
  that is not, the input is returned unchanged when the cards of the column are
  ordered per the Sort Policy: the column is sorted whether or not a card matched.
\<close>

theorem stale_reference_noop:
  "(\<not> activeBoardPresent st \<longrightarrow> addColumn st now t c l = st)
   \<and> (\<not> columnPresent st columnId \<longrightarrow> updateColumn st columnId u = st)
   \<and> (\<not> columnPresent st columnId \<longrightarrow> deleteColumn st columnId = st)
   \<and> (\<not> columnPresent st columnId \<longrightarrow> addCard st now columnId d = st)
   \<and> (\<not> columnPresent st columnId \<longrightarrow> updateCard st columnId cardId p = st)
   \<and> (\<not> cardPresent st columnId cardId \<and> columnOrdered st columnId
        \<longrightarrow> updateCard st columnId cardId p = st)
   \<and> (\<not> cardPresent st columnId cardId \<longrightarrow> deleteCard st columnId cardId = st)
   \<and> (\<not> boardPresent st boardId \<longrightarrow> boards (deleteBoard st boardId) = boards st)
   \<and> (\<not> boardPresent st boardId \<and> activeBoardId st \<noteq> Some boardId
        \<longrightarrow> deleteBoard st boardId = st)"
  by (simp add: addColumn_miss updateColumn_miss deleteColumn_miss addCard_miss
      updateCard_column_miss updateCard_card_miss deleteCard_miss deleteBoard_miss_boards
      deleteBoard_miss)

lemma policyOrdered_simps:
  "policyOrdered [] = True"
  "policyOrdered (x # xs) = ((\<forall>y \<in> set xs. \<not> sortsBefore y x) \<and> policyOrdered xs)"
  by (simp_all add: policyOrdered_def)

text \<open>
  Each case at a concrete state: a collection without an active board, a column id
  and a board id that do not occur, and a card id that does not occur in the ordered
  column \<^verbatim>\<open>col-1\<close>.
\<close>

theorem stale_reference_noop_witness:
  "addColumn ((scenarioState [cardA, cardB])\<lparr>activeBoardId := None\<rparr>) 7 ''Later'' ''bg-sky-500/20'' None
     = (scenarioState [cardA, cardB])\<lparr>activeBoardId := None\<rparr>
   \<and> updateColumn (scenarioState [cardA, cardB]) ''col-9'' (renameUpdate None)
     = scenarioState [cardA, cardB]
   \<and> deleteColumn (scenarioState [cardA, cardB]) ''col-9'' = scenarioState [cardA, cardB]
   \<and> addCard (scenarioState [cardA, cardB]) 7 ''col-9'' cardC = scenarioState [cardA, cardB]
   \<and> updateCard (scenarioState [cardA, cardB]) ''col-9'' ''a'' markCompleted
     = scenarioState [cardA, cardB]
   \<and> updateCard (scenarioState [cardA, cardB]) ''col-1'' ''z'' markCompleted
     = scenarioState [cardA, cardB]
   \<and> deleteCard (scenarioState [cardA, cardB]) ''col-1'' ''z'' = scenarioState [cardA, cardB]
   \<and> deleteBoard (scenarioState [cardA, cardB]) ''board-9'' = scenarioState [cardA, cardB]"
proof -
  let ?S = "scenarioState [cardA, cardB]"
  have absent: "\<not> activeBoardPresent (?S\<lparr>activeBoardId := None\<rparr>)"
    "\<not> columnPresent ?S ''col-9''" "\<not> cardPresent ?S ''col-1'' ''z''"
    "\<not> boardPresent ?S ''board-9''" "activeBoardId ?S \<noteq> Some ''board-9''"
    by (simp_all add: activeBoardPresent_def columnPresent_def cardPresent_def boardPresent_def
        scenarioState_def toDoColumn_def cardA_def cardB_def)
  have ordered: "columnOrdered ?S ''col-1''"
    by (simp add: columnOrdered_def scenarioState_def toDoColumn_def cardA_def cardB_def
        policyOrdered_simps sortsBefore_def)
  show ?thesis
    using absent ordered
      stale_reference_noop [of "?S\<lparr>activeBoardId := None\<rparr>" 7 "''Later''" "''bg-sky-500/20''" None]
      stale_reference_noop [of ?S _ _ _ _ "''col-9''" "renameUpdate None" cardC "''a''" markCompleted]
      stale_reference_noop [of ?S _ _ _ _ "''col-1''" _ _ "''z''" markCompleted "''board-9''"]
    by simp
qed

text \<open>
  C2 as stated fails for \<open>updateCard\<close>: the column \<^verbatim>\<open>col-1\<close> holds a completed card
  in front of an incomplete one, no card has the id \<^verbatim>\<open>z\<close>, and the operation
  returns the collection with the two cards exchanged.
\<close>

theorem updateCard_stale_card_resorts:
  "\<not> cardPresent (scenarioState [cardDone, cardA]) ''col-1'' ''z''
   \<and> updateCard (scenarioState [cardDone, cardA]) ''col-1'' ''z'' markCompleted
       = scenarioState [cardA, cardDone]
   \<and> scenarioState [cardA, cardDone] \<noteq> scenarioState [cardDone, cardA]"
  by (simp add: cardPresent_def updateCard_def updateBoardData_def scenarioState_def
      toDoColumn_def cardA_def cardDone_def markCompleted_def sortCards_simps compareCards_def)

section \<open>Drops that change nothing\<close>

lemma onDragEnd_no_destination: "destination r = None \<Longrightarrow> onDragEnd st r = NoUpdate"
  by (simp add: onDragEnd_def)

lemma onDragEnd_same_place:
  "destination r = Some d \<Longrightarrow> droppableId d = droppableId (source r)
    \<Longrightarrow> index d = index (source r) \<Longrightarrow> onDragEnd st r = NoUpdate"
  by (simp add: onDragEnd_def)

lemma onDragEnd_no_board: "activeBoard st = None \<Longrightarrow> onDragEnd st r = NoUpdate"
  by (simp add: onDragEnd_def activeBoard_def split: option.split)

lemma onDragEnd_no_column:
  assumes "type r \<noteq> ''COLUMN''" "destination r = Some d" "activeBoard st = Some b"
    and "columnOf b (droppableId (source r)) = None \<or> columnOf b (droppableId d) = None"
  shows "onDragEnd st r = NoUpdate"
  using assms by (auto simp: onDragEnd_def activeBoard_def columnOf_def split: option.split)

text \<open>
  C4. The drag reducer returns before \<^verbatim>\<open>setBoards\<close>, and so leaves the collection as
  it is, when the drop has no destination, when source and destination have the same
  container id and the same index, when no board has the id of the pointer to the
  active board, and, for a drop that is not of type \<^verbatim>\<open>COLUMN\<close>, when the source or the
  destination column id is not found in the active board.
\<close>

theorem onDragEnd_noop:
  "(destination r = None \<longrightarrow>
      onDragEnd st r = NoUpdate \<and> stateAfter st (onDragEnd st r) = Some st)
   \<and> (destination r = Some d \<and> droppableId d = droppableId (source r)
        \<and> index d = index (source r) \<longrightarrow>
      onDragEnd st r = NoUpdate \<and> stateAfter st (onDragEnd st r) = Some st)
   \<and> (activeBoard st = None \<longrightarrow>
      onDragEnd st r = NoUpdate \<and> stateAfter st (onDragEnd st r) = Some st)
   \<and> (type r \<noteq> ''COLUMN'' \<and> destination r = Some d \<and> activeBoard st = Some b
        \<and> (columnOf b (droppableId (source r)) = None \<or> columnOf b (droppableId d) = None) \<longrightarrow>
      onDragEnd st r = NoUpdate \<and> stateAfter st (onDragEnd st r) = Some st)"
proof -
  have "stateAfter st (onDragEnd st r) = Some st" if "onDragEnd st r = NoUpdate"
    using that by (simp add: stateAfter_def)
  then show ?thesis
    using onDragEnd_no_destination [of r st] onDragEnd_same_place [of r d st]
      onDragEnd_no_board [of st r] onDragEnd_no_column [of r d st b]
    by blast
qed

text \<open>
  The four cases on the scenario state: a cancelled drop, a drop on the place the
  card came from, a pointer to a board that does not exist, and a destination column
  that does not exist.
\<close>

theorem onDragEnd_noop_witness:
  "stateAfter (scenarioState [cardA, cardB])
      (onDragEnd (scenarioState [cardA, cardB]) (cardDrop ''col-1'' 0 None))
     = Some (scenarioState [cardA, cardB])
   \<and> stateAfter (scenarioState [cardA, cardB])
      (onDragEnd (scenarioState [cardA, cardB]) (cardDrop ''col-1'' 1 (Some (''col-1'', 1))))
     = Some (scenarioState [cardA, cardB])
   \<and> stateAfter ((scenarioState [cardA, cardB])\<lparr>activeBoardId := Some ''board-9''\<rparr>)
      (onDragEnd ((scenarioState [cardA, cardB])\<lparr>activeBoardId := Some ''board-9''\<rparr>)
         (cardDrop ''col-1'' 0 (Some (''col-1'', 1))))
     = Some ((scenarioState [cardA, cardB])\<lparr>activeBoardId := Some ''board-9''\<rparr>)
   \<and> stateAfter (scenarioState [cardA, cardB])
      (onDragEnd (scenarioState [cardA, cardB]) (cardDrop ''col-1'' 0 (Some (''col-9'', 0))))
     = Some (scenarioState [cardA, cardB])"
proof -
  let ?S = "scenarioState [cardA, cardB]"
  let ?b = "\<lparr>BoardData.id = ''board-1'', name = ''Project'', columns = [toDoColumn [cardA, cardB]]\<rparr>"
  have 1: "destination (cardDrop ''col-1'' 0 None) = None"
    by (simp add: cardDrop_def)
  let ?d2 = "\<lparr>droppableId = ''col-1'', index = 1\<rparr>"
  have 2: "destination (cardDrop ''col-1'' 1 (Some (''col-1'', 1))) = Some ?d2
      \<and> droppableId ?d2 = droppableId (source (cardDrop ''col-1'' 1 (Some (''col-1'', 1))))
      \<and> index ?d2 = index (source (cardDrop ''col-1'' 1 (Some (''col-1'', 1))))"
    by (simp add: cardDrop_def)
  have 3: "activeBoard (?S\<lparr>activeBoardId := Some ''board-9''\<rparr>) = None"
    by (simp add: activeBoard_def scenarioState_def)
  let ?d4 = "\<lparr>droppableId = ''col-9'', index = 0\<rparr>"
  have 4: "type (cardDrop ''col-1'' 0 (Some (''col-9'', 0))) \<noteq> ''COLUMN''
      \<and> destination (cardDrop ''col-1'' 0 (Some (''col-9'', 0))) = Some ?d4
      \<and> activeBoard ?S = Some ?b
      \<and> (columnOf ?b (droppableId (source (cardDrop ''col-1'' 0 (Some (''col-9'', 0))))) = None
          \<or> columnOf ?b (droppableId ?d4) = None)"
    by (simp add: cardDrop_def activeBoard_def scenarioState_def columnOf_def toDoColumn_def)
  have c1: "stateAfter ?S (onDragEnd ?S (cardDrop ''col-1'' 0 None)) = Some ?S"
    using 1 onDragEnd_noop [of "cardDrop ''col-1'' 0 None" ?S] by (simp add: stateAfter_def)
  have c2: "stateAfter ?S (onDragEnd ?S (cardDrop ''col-1'' 1 (Some (''col-1'', 1)))) = Some ?S"
    using 2 onDragEnd_noop [of "cardDrop ''col-1'' 1 (Some (''col-1'', 1))" ?S ?d2] by (simp add: stateAfter_def)
  have c3: "stateAfter (?S\<lparr>activeBoardId := Some ''board-9''\<rparr>)
      (onDragEnd (?S\<lparr>activeBoardId := Some ''board-9''\<rparr>)
         (cardDrop ''col-1'' 0 (Some (''col-1'', 1))))
     = Some (?S\<lparr>activeBoardId := Some ''board-9''\<rparr>)"
    using 3 onDragEnd_noop [of "cardDrop ''col-1'' 0 (Some (''col-1'', 1))"
        "?S\<lparr>activeBoardId := Some ''board-9''\<rparr>"] by (simp add: stateAfter_def)
  have c4: "stateAfter ?S (onDragEnd ?S (cardDrop ''col-1'' 0 (Some (''col-9'', 0)))) = Some ?S"
    using 4 onDragEnd_noop [of "cardDrop ''col-1'' 0 (Some (''col-9'', 0))" ?S ?d4 ?b] by (simp add: stateAfter_def)
  from c1 c2 c3 c4 show ?thesis by (intro conjI)
qed

section \<open>Deleting a board\<close>

text \<open>
  C5, as amended. \<open>deleteBoard\<close> keeps exactly the boards whose id differs from the
  one given, in their order. When the deleted id was not the active one the pointer
  is unchanged. When it was, the pointer becomes \<^verbatim>\<open>null\<close> if no board remains or
  if the id of the first remaining board is the empty string, and the id of the
  first remaining board otherwise.
\<close>

theorem deleteBoard_pointer:
  "boards (deleteBoard st boardId) = filter (\<lambda>b. BoardData.id b \<noteq> boardId) (boards st)
   \<and> (activeBoardId st \<noteq> Some boardId \<longrightarrow>
        activeBoardId (deleteBoard st boardId) = activeBoardId st)
   \<and> (activeBoardId st = Some boardId \<and> boards (deleteBoard st boardId) = [] \<longrightarrow>
        activeBoardId (deleteBoard st boardId) = None)
   \<and> (activeBoardId st = Some boardId \<and> boards (deleteBoard st boardId) = b # rest
        \<and> BoardData.id b \<noteq> [] \<longrightarrow>
        activeBoardId (deleteBoard st boardId) = Some (BoardData.id b))
   \<and> (activeBoardId st = Some boardId \<and> boards (deleteBoard st boardId) = b # rest
        \<and> BoardData.id b = [] \<longrightarrow>
        activeBoardId (deleteBoard st boardId) = None)"
  by (simp add: deleteBoard_def Let_def firstIdOrNull_def)

text \<open>
  Three deletions: of a board that is not active, of the active board with two
  boards remaining, and of the only board.
\<close>

theorem deleteBoard_pointer_witness:
  "deleteBoard \<lparr>boards = [plainBoard ''b1'', plainBoard ''b2'', plainBoard ''b3''],
                activeBoardId = Some ''b1''\<rparr> ''b2''
     = \<lparr>boards = [plainBoard ''b1'', plainBoard ''b3''], activeBoardId = Some ''b1''\<rparr>
   \<and> deleteBoard \<lparr>boards = [plainBoard ''b1'', plainBoard ''b2'', plainBoard ''b3''],
                  activeBoardId = Some ''b1''\<rparr> ''b1''
     = \<lparr>boards = [plainBoard ''b2'', plainBoard ''b3''], activeBoardId = Some ''b2''\<rparr>
   \<and> deleteBoard \<lparr>boards = [plainBoard ''b1''], activeBoardId = Some ''b1''\<rparr> ''b1''
     = \<lparr>boards = [], activeBoardId = None\<rparr>"
  using
    deleteBoard_pointer [of "\<lparr>boards = [plainBoard ''b1'', plainBoard ''b2'', plainBoard ''b3''],
                activeBoardId = Some ''b1''\<rparr>" "''b2''"]
    deleteBoard_pointer [of "\<lparr>boards = [plainBoard ''b1'', plainBoard ''b2'', plainBoard ''b3''],
                activeBoardId = Some ''b1''\<rparr>" "''b1''" "plainBoard ''b2''" "[plainBoard ''b3'']"]
    deleteBoard_pointer [of "\<lparr>boards = [plainBoard ''b1''], activeBoardId = Some ''b1''\<rparr>" "''b1''"]
  by (simp add: plainBoard_def KanbanState.equality)

text \<open>
  C5 as stated fails when the first remaining board has the empty string as its id:
  a board remains and the pointer is \<^verbatim>\<open>null\<close>.
\<close>

theorem deleteBoard_empty_id_pointer:
  "boards (deleteBoard \<lparr>boards = [plainBoard ''b1'', plainBoard []], activeBoardId = Some ''b1''\<rparr> ''b1'')
     = [plainBoard []]
   \<and> activeBoardId
       (deleteBoard \<lparr>boards = [plainBoard ''b1'', plainBoard []], activeBoardId = Some ''b1''\<rparr> ''b1'')
     = None"
  by (simp add: deleteBoard_def Let_def firstIdOrNull_def plainBoard_def)

section \<open>Updating a column\<close>

text \<open>
  C9, as amended. \<open>updateColumn\<close> does not write the pointer to the active board
  and changes no board with another id. In a board with the id of the pointer, a
  column with another id is unchanged, and a column with the id given keeps its id
  and its cards and takes the title and the colour of the update; it takes the limit
  of the update when the update carries the key \<^verbatim>\<open>limit\<close> (with a number or with
  \<^verbatim>\<open>undefined\<close>), and keeps its own limit when the update has no such key.
\<close>

theorem updateColumn_replaces_fields:
  "activeBoardId (updateColumn st columnId u) = activeBoardId st
   \<and> list_all2 (boardColumnsUpdated (activeBoardId st) columnId u)
        (boards st) (boards (updateColumn st columnId u))"
  by (simp add: updateColumn_def updateBoardData_def Let_def list_all2_map2 list_all2_same
      boardColumnsUpdated_def columnUpdated_def spreadColumn_def)

text \<open>
  On a state with two boards and two columns: the column \<^verbatim>\<open>col-1\<close> with limit 5 is
  renamed and loses its limit, the column \<^verbatim>\<open>col-2\<close> and the second board are as
  they were.
\<close>

theorem updateColumn_replaces_fields_witness:
  "list_all2 (boardColumnsUpdated (Some ''board-1'') ''col-1'' (renameUpdate (Some None)))
     (boards limitedState) (boards (updateColumn limitedState ''col-1'' (renameUpdate (Some None))))
   \<and> boards (updateColumn limitedState ''col-1'' (renameUpdate (Some None)))
     = [\<lparr>BoardData.id = ''board-1'', name = ''Project'',
         columns = [\<lparr>ColumnData.id = ''col-1'', title = ''Next'', color = ''bg-sky-500/20'',
                     limit = None, cards = [cardA]\<rparr>,
                    \<lparr>ColumnData.id = ''col-2'', title = ''Done'', color = ''bg-teal-500/20'',
                     limit = None, cards = [cardDone]\<rparr>]\<rparr>,
        plainBoard ''board-2'']"
proof -
  have "activeBoardId limitedState = Some ''board-1''"
    by (simp add: limitedState_def)
  then have "list_all2 (boardColumnsUpdated (Some ''board-1'') ''col-1'' (renameUpdate (Some None)))
     (boards limitedState) (boards (updateColumn limitedState ''col-1'' (renameUpdate (Some None))))"
    using updateColumn_replaces_fields [of limitedState "''col-1''" "renameUpdate (Some None)"]
    by simp
  moreover have "boards (updateColumn limitedState ''col-1'' (renameUpdate (Some None)))
     = [\<lparr>BoardData.id = ''board-1'', name = ''Project'',
         columns = [\<lparr>ColumnData.id = ''col-1'', title = ''Next'', color = ''bg-sky-500/20'',
                     limit = None, cards = [cardA]\<rparr>,
                    \<lparr>ColumnData.id = ''col-2'', title = ''Done'', color = ''bg-teal-500/20'',
                     limit = None, cards = [cardDone]\<rparr>]\<rparr>,
        plainBoard ''board-2'']"
    by (simp add: updateColumn_def updateBoardData_def limitedState_def toDoColumn_def
        plainBoard_def renameUpdate_def spreadColumn_def)
  ultimately show ?thesis by (intro conjI)
qed

text \<open>
  C9 as stated fails for an update without the key \<^verbatim>\<open>limit\<close>: the title and the
  colour of \<^verbatim>\<open>col-1\<close> are replaced and its limit is still 5.
\<close>

theorem updateColumn_keeps_limit_without_key:
  "ColumnUpdate.limit (renameUpdate None) = None
   \<and> boards (updateColumn limitedState ''col-1'' (renameUpdate None))
     = [\<lparr>BoardData.id = ''board-1'', name = ''Project'',
         columns = [\<lparr>ColumnData.id = ''col-1'', title = ''Next'', color = ''bg-sky-500/20'',
                     limit = Some 5, cards = [cardA]\<rparr>,
                    \<lparr>ColumnData.id = ''col-2'', title = ''Done'', color = ''bg-teal-500/20'',
                     limit = None, cards = [cardDone]\<rparr>]\<rparr>,
        plainBoard ''board-2'']"
  by (simp add: updateColumn_def updateBoardData_def limitedState_def toDoColumn_def
      plainBoard_def renameUpdate_def spreadColumn_def)

section \<open>Only the active board changes\<close>

lemma framed_map_active:
  "framed st
     (updateBoardData (map (\<lambda>b. if Some (BoardData.id b) = activeBoardId st then f b else b)) st)"
  by (simp add: framed_def othersKept_def updateBoardData_def list_all2_map2 list_all2_same)

lemma framed_addColumn: "framed st (addColumn st now t c l)"
  unfolding addColumn_def by (rule framed_map_active)

lemma framed_updateColumn: "framed st (updateColumn st columnId u)"
  unfolding updateColumn_def by (rule framed_map_active)

lemma framed_deleteColumn: "framed st (deleteColumn st columnId)"
  unfolding deleteColumn_def by (rule framed_map_active)

lemma framed_addCard: "framed st (addCard st now columnId d)"
  unfolding addCard_def by (rule framed_map_active)

lemma framed_updateCard: "framed st (updateCard st columnId cardId p)"
  unfolding updateCard_def by (rule framed_map_active)

lemma framed_deleteCard: "framed st (deleteCard st columnId cardId)"
  unfolding deleteCard_def by (rule framed_map_active)

lemma dragFramed_replaceActive: "dragFramed st (SetBoards (replaceActive st u))"
  by (simp add: dragFramed_def othersKept_def replaceActive_def list_all2_map2 list_all2_same)

lemma dragFramed_replaceActiveUndefined:
  "dragFramed st (SetBoardsUndefined (replaceActiveUndefined st))"
  by (simp add: dragFramed_def replaceActiveUndefined_def list_all2_map2 list_all2_same)

lemma dragFramed_NoUpdate: "dragFramed st NoUpdate"
  by (simp add: dragFramed_def)

lemmas dragFramed_intros =
  dragFramed_NoUpdate dragFramed_replaceActive dragFramed_replaceActiveUndefined

lemma dragFramed_reorderColumn: "dragFramed st (reorderColumn st b i j)"
  by (simp add: reorderColumn_def Let_def dragFramed_intros split: prod.split option.split)

lemma dragFramed_reorderCard: "dragFramed st (reorderCard st b c i j)"
  by (simp add: reorderCard_def Let_def dragFramed_intros split: prod.split option.split)

lemma dragFramed_moveCard: "dragFramed st (moveCard st b c c' i j)"
  by (simp add: moveCard_def Let_def dragFramed_intros split: prod.split option.split)

lemma dragFramed_onDragEnd: "dragFramed st (onDragEnd st r)"
  by (simp add: onDragEnd_def dragFramed_intros dragFramed_reorderColumn
      dragFramed_reorderCard dragFramed_moveCard split: option.split)

lemma framed_stateAfter:
  "dragFramed st outcome \<Longrightarrow>
    (case stateAfter st outcome of None \<Rightarrow> True | Some st' \<Rightarrow> framed st st')"
  by (cases outcome)
     (simp_all add: stateAfter_def dragFramed_def framed_def othersKept_def list_all2_same)

text \<open>
  C10. \<open>addColumn\<close>, \<open>updateColumn\<close>, \<open>deleteColumn\<close>, \<open>addCard\<close>, \<open>updateCard\<close>,
  \<open>deleteCard\<close> and the drag reducer do not write the pointer to the active board,
  and in the collection they produce every board whose id differs from the pointer
  stands at its place unchanged. For the drag reducer this holds of every outcome,
  also of the one that stores \<^verbatim>\<open>undefined\<close> in the active board.
\<close>

theorem active_board_frame:
  "framed st (addColumn st now t c l)
   \<and> framed st (updateColumn st columnId u)
   \<and> framed st (deleteColumn st columnId)
   \<and> framed st (addCard st now columnId d)
   \<and> framed st (updateCard st columnId cardId p)
   \<and> framed st (deleteCard st columnId cardId)
   \<and> dragFramed st (onDragEnd st r)
   \<and> (case stateAfter st (onDragEnd st r) of None \<Rightarrow> True | Some st' \<Rightarrow> framed st st')"
  by (intro conjI framed_addColumn framed_updateColumn framed_deleteColumn framed_addCard
      framed_updateCard framed_deleteCard dragFramed_onDragEnd framed_stateAfter)

text \<open>
  On the state with two boards, the first one active: a card is marked completed
  and a card is dragged from \<^verbatim>\<open>col-1\<close> to \<^verbatim>\<open>col-2\<close>; the second board, whose id is
  not the pointer, is the same afterwards.
\<close>

theorem active_board_frame_witness:
  "Some (BoardData.id (boards limitedState ! 1)) \<noteq> activeBoardId limitedState
   \<and> boards (updateCard limitedState ''col-1'' ''a'' markCompleted) ! 1 = boards limitedState ! 1
   \<and> activeBoardId (updateCard limitedState ''col-1'' ''a'' markCompleted)
       = activeBoardId limitedState
   \<and> dragFramed limitedState
       (onDragEnd limitedState (cardDrop ''col-1'' 0 (Some (''col-2'', 0))))"
proof -
  note inst = active_board_frame [of limitedState _ _ _ _ "''col-1''" _ _ "''a''" markCompleted
      "cardDrop ''col-1'' 0 (Some (''col-2'', 0))"]
  have other: "Some (BoardData.id (boards limitedState ! 1)) \<noteq> activeBoardId limitedState"
    and len: "1 < length (boards limitedState)"
    by (simp_all add: limitedState_def plainBoard_def)
  from inst have fr: "framed limitedState (updateCard limitedState ''col-1'' ''a'' markCompleted)"
    by simp
  then have "list_all2 (\<lambda>b b'. Some (BoardData.id b) \<noteq> activeBoardId limitedState \<longrightarrow> b' = b)
      (boards limitedState) (boards (updateCard limitedState ''col-1'' ''a'' markCompleted))"
    by (simp add: framed_def othersKept_def)
  from list_all2_nthD [OF this len] other
  have "boards (updateCard limitedState ''col-1'' ''a'' markCompleted) ! 1 = boards limitedState ! 1"
    by simp
  moreover from fr have "activeBoardId (updateCard limitedState ''col-1'' ''a'' markCompleted)
       = activeBoardId limitedState"
    by (simp add: framed_def)
  moreover from inst have "dragFramed limitedState
       (onDragEnd limitedState (cardDrop ''col-1'' 0 (Some (''col-2'', 0))))"
    by simp
  ultimately show ?thesis
    using other by (intro conjI)
qed

section \<open>Deleting a card\<close>

lemma find_map_same_test:
  "(\<And>x. P (f x) = P x) \<Longrightarrow> find P (map f xs) = map_option f (find P xs)"
  by (induction xs) simp_all

lemma map_option_find_if:
  "map_option (\<lambda>x. if P x then f x else x) (find P xs) = map_option f (find P xs)"
  by (induction xs) simp_all

lemma activeBoard_map_active:
  assumes "\<And>b. BoardData.id (f b) = BoardData.id b"
  shows "activeBoard
      (updateBoardData (map (\<lambda>b. if Some (BoardData.id b) = activeBoardId st then f b else b)) st)
    = map_option f (activeBoard st)"
proof -
  let ?P = "\<lambda>b. Some (BoardData.id b) = activeBoardId st"
  let ?g = "\<lambda>b. if ?P b then f b else b"
  have "find ?P (map ?g (boards st)) = map_option ?g (find ?P (boards st))"
    by (rule find_map_same_test) (simp add: assms)
  also have "\<dots> = map_option f (find ?P (boards st))"
    by (rule map_option_find_if)
  finally show ?thesis
    by (simp add: activeBoard_def updateBoardData_def)
qed

lemma columnOf_map_column:
  assumes "\<And>c. ColumnData.id (h c) = ColumnData.id c"
  shows "columnOf (b\<lparr>columns := map (\<lambda>c. if ColumnData.id c = columnId then h c else c) (columns b)\<rparr>)
           columnId
    = map_option h (columnOf b columnId)"
proof -
  let ?P = "\<lambda>c. ColumnData.id c = columnId"
  let ?g = "\<lambda>c. if ?P c then h c else c"
  have "find ?P (map ?g (columns b)) = map_option ?g (find ?P (columns b))"
    by (rule find_map_same_test) (simp add: assms)
  also have "\<dots> = map_option h (find ?P (columns b))"
    by (rule map_option_find_if)
  finally show ?thesis
    by (simp add: columnOf_def)
qed

lemma policyOrdered_filter: "policyOrdered cs \<Longrightarrow> policyOrdered (filter P cs)"
  by (simp add: policyOrdered_def sorted_wrt_filter)

text \<open>
  C7. When the cards of the target column (the column of the active board found
  under the id given) are ordered per the Sort Policy, \<open>deleteCard\<close> leaves in that
  column exactly the cards whose id differs from the one given, in the order they
  had, and the column is still ordered per the Sort Policy. Nothing else is
  removed: the active board keeps its id and its name, each of its columns stands
  at its place, one with another id unchanged and one with the id given changed in
  its cards only, and every other board and the pointer to the active board are
  unchanged.
\<close>

theorem deleteCard_keeps_order:
  assumes "activeBoard st = Some b"
    and "columnOf b columnId = Some c"
    and "policyOrdered (cards c)"
  shows "\<exists>b' c'. activeBoard (deleteCard st columnId cardId) = Some b'
      \<and> columnOf b' columnId = Some c'
      \<and> cards c' = filter (\<lambda>k. CardData.id k \<noteq> cardId) (cards c)
      \<and> policyOrdered (cards c')
      \<and> BoardData.id b' = BoardData.id b \<and> name b' = name b
      \<and> list_all2 (cardRemoved columnId cardId) (columns b) (columns b')
      \<and> framed st (deleteCard st columnId cardId)"
proof -
  let ?h = "\<lambda>col. col\<lparr>cards := filter (\<lambda>card'. CardData.id card' \<noteq> cardId) (cards col)\<rparr>"
  let ?f = "\<lambda>board. board\<lparr>columns :=
      map (\<lambda>col. if ColumnData.id col = columnId then ?h col else col) (columns board)\<rparr>"
  have "activeBoard (deleteCard st columnId cardId) = map_option ?f (activeBoard st)"
    unfolding deleteCard_def Let_def by (rule activeBoard_map_active) simp
  then have 1: "activeBoard (deleteCard st columnId cardId) = Some (?f b)"
    by (simp add: assms(1))
  have "columnOf (?f b) columnId = map_option ?h (columnOf b columnId)"
    by (rule columnOf_map_column) simp
  then have 2: "columnOf (?f b) columnId = Some (?h c)"
    by (simp add: assms(2))
  have 3: "cards (?h c) = filter (\<lambda>k. CardData.id k \<noteq> cardId) (cards c)"
    by simp
  have 4: "policyOrdered (cards (?h c))"
    using assms(3) by (simp add: policyOrdered_filter)
  have 5: "BoardData.id (?f b) = BoardData.id b \<and> name (?f b) = name b"
    by simp
  have 6: "list_all2 (cardRemoved columnId cardId) (columns b) (columns (?f b))"
    by (simp add: list_all2_map2 list_all2_same cardRemoved_def)
  have 7: "framed st (deleteCard st columnId cardId)"
    by (rule framed_deleteCard)
  from 1 2 3 4 5 6 7 show ?thesis by blast
qed

text \<open>
  On the scenario state with a third, completed card: deleting Card B leaves Card A
  and the completed card, in that order. On the state with two boards and two
  columns: deleting Card A empties \<^verbatim>\<open>col-1\<close>, and the column \<^verbatim>\<open>col-2\<close> and the second
  board are as they were.
\<close>

theorem deleteCard_keeps_order_witness:
  "(\<exists>b' c'. activeBoard (deleteCard (scenarioState [cardA, cardB, cardDone]) ''col-1'' ''b'') = Some b'
      \<and> columnOf b' ''col-1'' = Some c'
      \<and> cards c' = [cardA, cardDone]
      \<and> policyOrdered (cards c')
      \<and> columns b' = [toDoColumn [cardA, cardDone]])
   \<and> (\<exists>b'. activeBoard (deleteCard limitedState ''col-1'' ''a'') = Some b'
      \<and> columns b' = [(toDoColumn [])\<lparr>ColumnData.limit := Some 5\<rparr>,
                       \<lparr>ColumnData.id = ''col-2'', title = ''Done'', color = ''bg-teal-500/20'',
                        limit = None, cards = [cardDone]\<rparr>]
      \<and> boards (deleteCard limitedState ''col-1'' ''a'') ! 1 = plainBoard ''board-2'')"
proof -
  let ?S = "scenarioState [cardA, cardB, cardDone]"
  let ?b = "\<lparr>BoardData.id = ''board-1'', name = ''Project'',
             columns = [toDoColumn [cardA, cardB, cardDone]]\<rparr>"
  have 1: "activeBoard ?S = Some ?b"
    by (simp add: activeBoard_def scenarioState_def)
  have 2: "columnOf ?b ''col-1'' = Some (toDoColumn [cardA, cardB, cardDone])"
    by (simp add: columnOf_def toDoColumn_def)
  have 3: "policyOrdered (cards (toDoColumn [cardA, cardB, cardDone]))"
    by (simp add: toDoColumn_def policyOrdered_simps sortsBefore_def cardA_def cardB_def
        cardDone_def)
  have 4: "filter (\<lambda>k. CardData.id k \<noteq> ''b'') (cards (toDoColumn [cardA, cardB, cardDone]))
      = [cardA, cardDone]"
    by (simp add: toDoColumn_def cardA_def cardB_def cardDone_def)
  from deleteCard_keeps_order [OF 1 2 3, of "''b''"]
  obtain b' c' where found: "activeBoard (deleteCard ?S ''col-1'' ''b'') = Some b'"
      "columnOf b' ''col-1'' = Some c'" "cards c' = [cardA, cardDone]" "policyOrdered (cards c')"
    and cols: "list_all2 (cardRemoved ''col-1'' ''b'') (columns ?b) (columns b')"
    unfolding 4 by blast
  from cols have "columns b' = [toDoColumn [cardA, cardDone]]"
    by (simp add: list_all2_Cons1 cardRemoved_def toDoColumn_def cardA_def cardB_def cardDone_def)
  with found have first: "\<exists>b' c'. activeBoard (deleteCard ?S ''col-1'' ''b'') = Some b'
      \<and> columnOf b' ''col-1'' = Some c' \<and> cards c' = [cardA, cardDone]
      \<and> policyOrdered (cards c') \<and> columns b' = [toDoColumn [cardA, cardDone]]"
    by blast
  let ?c1 = "(toDoColumn [cardA])\<lparr>ColumnData.limit := Some 5\<rparr>"
  let ?c2 = "\<lparr>ColumnData.id = ''col-2'', title = ''Done'', color = ''bg-teal-500/20'',
              limit = None, cards = [cardDone]\<rparr>"
  let ?l = "\<lparr>BoardData.id = ''board-1'', name = ''Project'', columns = [?c1, ?c2]\<rparr>"
  have 5: "activeBoard limitedState = Some ?l"
    by (simp add: activeBoard_def limitedState_def)
  have 6: "columnOf ?l ''col-1'' = Some ?c1"
    by (simp add: columnOf_def toDoColumn_def)
  have 7: "policyOrdered (cards ?c1)"
    by (simp add: toDoColumn_def policyOrdered_simps)
  from deleteCard_keeps_order [OF 5 6 7, of "''a''"]
  obtain d' where active: "activeBoard (deleteCard limitedState ''col-1'' ''a'') = Some d'"
    and cols': "list_all2 (cardRemoved ''col-1'' ''a'') (columns ?l) (columns d')"
    and frame: "framed limitedState (deleteCard limitedState ''col-1'' ''a'')"
    by blast
  from cols' have kept: "columns d' = [(toDoColumn [])\<lparr>ColumnData.limit := Some 5\<rparr>, ?c2]"
    by (simp add: list_all2_Cons1 cardRemoved_def toDoColumn_def cardA_def)
  have other: "Some (BoardData.id (boards limitedState ! 1)) \<noteq> activeBoardId limitedState"
    and len: "1 < length (boards limitedState)"
    and second: "boards limitedState ! 1 = plainBoard ''board-2''"
    by (simp_all add: limitedState_def plainBoard_def)
  from frame have "list_all2 (\<lambda>b b'. Some (BoardData.id b) \<noteq> activeBoardId limitedState \<longrightarrow> b' = b)
      (boards limitedState) (boards (deleteCard limitedState ''col-1'' ''a''))"
    by (simp add: framed_def othersKept_def)
  from list_all2_nthD [OF this len] other second
  have "boards (deleteCard limitedState ''col-1'' ''a'') ! 1 = plainBoard ''board-2''"
    by simp
  with active kept have "\<exists>b'. activeBoard (deleteCard limitedState ''col-1'' ''a'') = Some b'
      \<and> columns b' = [(toDoColumn [])\<lparr>ColumnData.limit := Some 5\<rparr>, ?c2]
      \<and> boards (deleteCard limitedState ''col-1'' ''a'') ! 1 = plainBoard ''board-2''"
    by blast
  with first show ?thesis by (rule conjI)
qed

section \<open>Card moves keep the number of cards\<close>

lemma find_holds: "find P xs = Some x \<Longrightarrow> P x"
  by (induction xs) (auto split: if_splits)

lemma find_replace:
  "P u \<Longrightarrow> find P (map (\<lambda>b. if P b then u else b) bs) = map_option (\<lambda>_. u) (find P bs)"
  by (induction bs) simp_all

lemma activeBoard_replaceActive:
  assumes "activeBoard st = Some b" and "BoardData.id u = BoardData.id b"
  shows "activeBoard (st\<lparr>boards := replaceActive st u\<rparr>) = Some u"
proof -
  let ?P = "\<lambda>b. Some (BoardData.id b) = activeBoardId st"
  from assms(1) have "?P b"
    unfolding activeBoard_def by (rule find_holds)
  with assms(2) have "?P u" by simp
  then have "find ?P (map (\<lambda>b. if ?P b then u else b) (boards st))
      = map_option (\<lambda>_. u) (find ?P (boards st))"
    by (rule find_replace)
  with assms(1) show ?thesis
    by (simp add: activeBoard_def replaceActive_def)
qed

lemma spliceRemove_in_range:
  assumes "0 \<le> i" and "i < int (length xs)"
  shows "spliceRemove xs i = (Some (xs ! nat i), take (nat i) xs @ drop (Suc (nat i)) xs)"
    and "Suc (length (take (nat i) xs @ drop (Suc (nat i)) xs)) = length xs"
proof -
  from assms have k: "nat i < length xs" by simp
  then have "relativeStart i (length xs) = nat i"
    using assms(1) by (simp add: relativeStart_def)
  with k show "spliceRemove xs i = (Some (xs ! nat i), take (nat i) xs @ drop (Suc (nat i)) xs)"
    by (simp add: spliceRemove_def Let_def)
  from k show "Suc (length (take (nat i) xs @ drop (Suc (nat i)) xs)) = length xs"
    by simp
qed

lemma length_spliceInsert: "length (spliceInsert xs j x) = Suc (length xs)"
  by (simp add: spliceInsert_def Let_def)

lemma sum_replace_one:
  assumes "distinct (map ColumnData.id cs)"
    and "find (\<lambda>c. ColumnData.id c = s) cs = Some sc"
  shows "sum_list (map f (map (\<lambda>c. if ColumnData.id c = s then n else c) cs)) + f sc
       = sum_list (map f cs) + (f n :: nat)"
  using assms
proof (induction cs)
  case Nil
  then show ?case by simp
next
  case (Cons c cs)
  show ?case
  proof (cases "ColumnData.id c = s")
    case True
    with Cons.prems have "\<forall>x \<in> set cs. \<not> ColumnData.id x = s" and "sc = c"
      by (auto simp: image_iff)
    then show ?thesis
      using True by (simp add: map_if_miss)
  next
    case False
    with Cons show ?thesis by simp
  qed
qed

lemma sum_replace_two:
  assumes "distinct (map ColumnData.id cs)"
    and "find (\<lambda>c. ColumnData.id c = s) cs = Some sc"
    and "find (\<lambda>c. ColumnData.id c = d) cs = Some fc"
    and "s \<noteq> d"
  shows "sum_list (map f (map (\<lambda>c. if ColumnData.id c = s then ns
                                    else if ColumnData.id c = d then nf else c) cs))
           + f sc + f fc
       = sum_list (map f cs) + f ns + (f nf :: nat)"
  using assms
proof (induction cs)
  case Nil
  then show ?case by simp
next
  case (Cons c cs)
  consider (start) "ColumnData.id c = s" | (finish) "ColumnData.id c = d"
    | (other) "ColumnData.id c \<noteq> s" "ColumnData.id c \<noteq> d"
    by blast
  then show ?case
  proof cases
    case start
    with Cons.prems have none: "\<forall>x \<in> set cs. \<not> ColumnData.id x = s" and "sc = c"
      and rest: "distinct (map ColumnData.id cs)" "find (\<lambda>c. ColumnData.id c = d) cs = Some fc"
      by (auto simp: image_iff)
    from none have eq: "map (\<lambda>c. if ColumnData.id c = s then ns
                              else if ColumnData.id c = d then nf else c) cs
        = map (\<lambda>c. if ColumnData.id c = d then nf else c) cs"
      by (intro map_cong) auto
    from sum_replace_one [OF rest, of f nf] \<open>sc = c\<close> start show ?thesis
      by (simp add: eq del: map_map)
  next
    case finish
    with Cons.prems have none: "\<forall>x \<in> set cs. \<not> ColumnData.id x = d" and "fc = c"
      and rest: "distinct (map ColumnData.id cs)" "find (\<lambda>c. ColumnData.id c = s) cs = Some sc"
      by (auto simp: image_iff)
    from none have eq: "map (\<lambda>c. if ColumnData.id c = s then ns
                              else if ColumnData.id c = d then nf else c) cs
        = map (\<lambda>c. if ColumnData.id c = s then ns else c) cs"
      by (intro map_cong) auto
    from sum_replace_one [OF rest, of f ns] \<open>fc = c\<close> finish Cons.prems(4) show ?thesis
      by (simp add: eq del: map_map)
  next
    case other
    with Cons show ?thesis by simp
  qed
qed

lemma cardCount_replace_one:
  assumes "distinct (map ColumnData.id (columns b))"
    and "columnOf b s = Some sc"
    and "length (cards n) = length (cards sc)"
  shows "cardCount (b\<lparr>columns := map (\<lambda>c. if ColumnData.id c = s then n else c) (columns b)\<rparr>)
       = cardCount b"
  using sum_replace_one [OF assms(1) assms(2) [unfolded columnOf_def],
      of "\<lambda>c. length (cards c)" n] assms(3)
  by (simp add: cardCount_def)

lemma cardCount_replace_two:
  assumes "distinct (map ColumnData.id (columns b))"
    and "columnOf b s = Some sc"
    and "columnOf b d = Some fc"
    and "s \<noteq> d"
    and "Suc (length (cards ns)) = length (cards sc)"
    and "length (cards nf) = Suc (length (cards fc))"
  shows "cardCount (b\<lparr>columns := map (\<lambda>c. if ColumnData.id c = s then ns
                                          else if ColumnData.id c = d then nf else c)
                                     (columns b)\<rparr>)
       = cardCount b"
  using sum_replace_two [OF assms(1) assms(2) [unfolded columnOf_def]
      assms(3) [unfolded columnOf_def] assms(4), of "\<lambda>c. length (cards c)" ns nf]
    assms(5) assms(6)
  by (simp add: cardCount_def)

text \<open>
  C3, as amended. The active board has pairwise distinct column ids, the drop is not
  of type \<^verbatim>\<open>COLUMN\<close>, its source and destination columns are found in the active
  board, and the source index is a position of the source column. Then the drag
  reducer yields a state whose active board holds as many cards, summed over its
  columns, as before. (Any destination index will do: \<^verbatim>\<open>splice\<close> inserts at the end
  when the index is beyond the array.)
\<close>

theorem card_move_keeps_count:
  assumes board: "activeBoard st = Some b"
    and ids: "distinct (map ColumnData.id (columns b))"
    and kind: "type r \<noteq> ''COLUMN''"
    and dest: "destination r = Some d"
    and start: "columnOf b (droppableId (source r)) = Some startCol"
    and finish: "columnOf b (droppableId d) = Some finishCol"
    and lower: "0 \<le> index (source r)"
    and upper: "index (source r) < int (length (cards startCol))"
  shows "\<exists>st' b'. stateAfter st (onDragEnd st r) = Some st'
      \<and> activeBoard st' = Some b' \<and> cardCount b' = cardCount b"
proof (cases "droppableId d = droppableId (source r) \<and> index d = index (source r)")
  case True
  with dest have "onDragEnd st r = NoUpdate"
    by (simp add: onDragEnd_same_place)
  then have "stateAfter st (onDragEnd st r) = Some st"
    by (simp add: stateAfter_def)
  with board show ?thesis by blast
next
  case False
  let ?i = "index (source r)" and ?j = "index d"
  let ?x = "cards startCol ! nat ?i"
  let ?rest = "take (nat ?i) (cards startCol) @ drop (Suc (nat ?i)) (cards startCol)"
  have removed: "spliceRemove (cards startCol) ?i = (Some ?x, ?rest)"
    and shorter: "Suc (length ?rest) = length (cards startCol)"
    using spliceRemove_in_range [OF lower upper] by simp_all
  have startId: "ColumnData.id startCol = droppableId (source r)"
    and finishId: "ColumnData.id finishCol = droppableId d"
    using start finish unfolding columnOf_def by (auto dest: find_holds)
  from False dest kind board start finish
  have run: "onDragEnd st r =
      (if startCol = finishCol then reorderCard st b startCol ?i ?j
       else moveCard st b startCol finishCol ?i ?j)"
    by (auto simp: onDragEnd_def activeBoard_def columnOf_def)
  show ?thesis
  proof (cases "startCol = finishCol")
    case True
    let ?newCol = "startCol\<lparr>cards := sortCards (spliceInsert ?rest ?j ?x)\<rparr>"
    let ?u = "b\<lparr>columns :=
        map (\<lambda>c. if ColumnData.id c = droppableId (source r) then ?newCol else c) (columns b)\<rparr>"
    from run True have "onDragEnd st r = reorderCard st b startCol ?i ?j"
      by simp
    then have "onDragEnd st r = SetBoards (replaceActive st ?u)"
      by (simp add: reorderCard_def Let_def removed startId)
    then have 1: "stateAfter st (onDragEnd st r) = Some (st\<lparr>boards := replaceActive st ?u\<rparr>)"
      by (simp add: stateAfter_def)
    have 2: "activeBoard (st\<lparr>boards := replaceActive st ?u\<rparr>) = Some ?u"
      by (rule activeBoard_replaceActive [OF board]) simp
    have "length (cards ?newCol) = length (cards startCol)"
      using shorter by (simp add: length_sortCards length_spliceInsert)
    then have 3: "cardCount ?u = cardCount b"
      by (rule cardCount_replace_one [OF ids start])
    from 1 2 3 show ?thesis by blast
  next
    case False
    let ?newStart = "startCol\<lparr>cards := sortCards ?rest\<rparr>"
    let ?newFinish = "finishCol\<lparr>cards := sortCards (spliceInsert (cards finishCol) ?j ?x)\<rparr>"
    let ?u = "b\<lparr>columns :=
        map (\<lambda>c. if ColumnData.id c = droppableId (source r) then ?newStart
                  else if ColumnData.id c = droppableId d then ?newFinish else c)
          (columns b)\<rparr>"
    from False start finish have differ: "droppableId (source r) \<noteq> droppableId d"
      by auto
    from run False have "onDragEnd st r = moveCard st b startCol finishCol ?i ?j"
      by simp
    then have "onDragEnd st r = SetBoards (replaceActive st ?u)"
      by (simp add: moveCard_def Let_def removed startId finishId cong: if_cong)
    then have 1: "stateAfter st (onDragEnd st r) = Some (st\<lparr>boards := replaceActive st ?u\<rparr>)"
      by (simp add: stateAfter_def)
    have 2: "activeBoard (st\<lparr>boards := replaceActive st ?u\<rparr>) = Some ?u"
      by (rule activeBoard_replaceActive [OF board]) simp
    have "Suc (length (cards ?newStart)) = length (cards startCol)"
      and "length (cards ?newFinish) = Suc (length (cards finishCol))"
      using shorter by (simp_all add: length_sortCards length_spliceInsert)
    then have 3: "cardCount ?u = cardCount b"
      by (rule cardCount_replace_two [OF ids start finish differ])
    from 1 2 3 show ?thesis by blast
  qed
qed

text \<open>
  Two drops: Card A moves from \<^verbatim>\<open>col-1\<close> to \<^verbatim>\<open>col-2\<close> on the state with two columns,
  and Card A is dropped behind Card B within \<^verbatim>\<open>col-1\<close> on the scenario state. Both
  boards hold two cards before and after.
\<close>

theorem card_move_keeps_count_witness:
  "(\<exists>st' b'. stateAfter limitedState
        (onDragEnd limitedState (cardDrop ''col-1'' 0 (Some (''col-2'', 0)))) = Some st'
      \<and> activeBoard st' = Some b' \<and> cardCount b' = 2)
   \<and> (\<exists>st' b'. stateAfter (scenarioState [cardA, cardB])
        (onDragEnd (scenarioState [cardA, cardB]) (cardDrop ''col-1'' 0 (Some (''col-1'', 1))))
          = Some st'
      \<and> activeBoard st' = Some b' \<and> cardCount b' = 2)"
proof -
  let ?b = "\<lparr>BoardData.id = ''board-1'', name = ''Project'',
         columns = [(toDoColumn [cardA])\<lparr>ColumnData.limit := Some 5\<rparr>,
                    \<lparr>ColumnData.id = ''col-2'', title = ''Done'', color = ''bg-teal-500/20'',
                     limit = None, cards = [cardDone]\<rparr>]\<rparr>"
  let ?r = "cardDrop ''col-1'' 0 (Some (''col-2'', 0))"
  have "activeBoard limitedState = Some ?b"
    and "distinct (map ColumnData.id (columns ?b))"
    and "type ?r \<noteq> ''COLUMN''"
    and "destination ?r = Some \<lparr>droppableId = ''col-2'', index = 0\<rparr>"
    and "columnOf ?b (droppableId (source ?r)) = Some ((toDoColumn [cardA])\<lparr>ColumnData.limit := Some 5\<rparr>)"
    and "columnOf ?b (droppableId \<lparr>droppableId = ''col-2'', index = 0\<rparr>)
          = Some \<lparr>ColumnData.id = ''col-2'', title = ''Done'', color = ''bg-teal-500/20'',
                     limit = None, cards = [cardDone]\<rparr>"
    and "0 \<le> index (source ?r)"
    and "index (source ?r) < int (length (cards ((toDoColumn [cardA])\<lparr>ColumnData.limit := Some 5\<rparr>)))"
    by (simp_all add: activeBoard_def limitedState_def columnOf_def toDoColumn_def cardDrop_def)
  from card_move_keeps_count [OF this]
  have "\<exists>st' b'. stateAfter limitedState (onDragEnd limitedState ?r) = Some st'
      \<and> activeBoard st' = Some b' \<and> cardCount b' = cardCount ?b" .
  moreover have "cardCount ?b = 2"
    by (simp add: cardCount_def toDoColumn_def)
  ultimately have first: "\<exists>st' b'. stateAfter limitedState (onDragEnd limitedState ?r) = Some st'
      \<and> activeBoard st' = Some b' \<and> cardCount b' = 2"
    by simp
  let ?c = "\<lparr>BoardData.id = ''board-1'', name = ''Project'', columns = [toDoColumn [cardA, cardB]]\<rparr>"
  let ?q = "cardDrop ''col-1'' 0 (Some (''col-1'', 1))"
  have "activeBoard (scenarioState [cardA, cardB]) = Some ?c"
    and "distinct (map ColumnData.id (columns ?c))"
    and "type ?q \<noteq> ''COLUMN''"
    and "destination ?q = Some \<lparr>droppableId = ''col-1'', index = 1\<rparr>"
    and "columnOf ?c (droppableId (source ?q)) = Some (toDoColumn [cardA, cardB])"
    and "columnOf ?c (droppableId \<lparr>droppableId = ''col-1'', index = 1\<rparr>)
          = Some (toDoColumn [cardA, cardB])"
    and "0 \<le> index (source ?q)"
    and "index (source ?q) < int (length (cards (toDoColumn [cardA, cardB])))"
    by (simp_all add: activeBoard_def scenarioState_def columnOf_def toDoColumn_def cardDrop_def)
  from card_move_keeps_count [OF this]
  have "\<exists>st' b'. stateAfter (scenarioState [cardA, cardB])
        (onDragEnd (scenarioState [cardA, cardB]) ?q) = Some st'
      \<and> activeBoard st' = Some b' \<and> cardCount b' = cardCount ?c" .
  moreover have "cardCount ?c = 2"
    by (simp add: cardCount_def toDoColumn_def)
  ultimately have second: "\<exists>st' b'. stateAfter (scenarioState [cardA, cardB])
        (onDragEnd (scenarioState [cardA, cardB]) ?q) = Some st'
      \<and> activeBoard st' = Some b' \<and> cardCount b' = 2"
    by simp
  from first second show ?thesis by (rule conjI)
qed

text \<open>
  C3 as stated fails when two columns of the active board share an id. The board
  holds Card A and Card B in two columns with the id \<^verbatim>\<open>col-1\<close>; the drop of the card
  at index 0 of \<^verbatim>\<open>col-1\<close> on the empty column \<^verbatim>\<open>col-2\<close> is valid, and afterwards both
  columns with the id \<^verbatim>\<open>col-1\<close> are the emptied source column: two cards before, one
  after.
\<close>

theorem card_move_duplicate_column_id:
  "activeBoard duplicateIdState
     = Some (projectBoard [toDoColumn [cardA], toDoColumn [cardB], doneColumn []])
   \<and> cardCount (projectBoard [toDoColumn [cardA], toDoColumn [cardB], doneColumn []]) = 2
   \<and> stateAfter duplicateIdState
       (onDragEnd duplicateIdState (cardDrop ''col-1'' 0 (Some (''col-2'', 0))))
     = Some (duplicateIdState
         \<lparr>boards := [projectBoard [toDoColumn [], toDoColumn [], doneColumn [cardA]]]\<rparr>)
   \<and> activeBoard (duplicateIdState
         \<lparr>boards := [projectBoard [toDoColumn [], toDoColumn [], doneColumn [cardA]]]\<rparr>)
     = Some (projectBoard [toDoColumn [], toDoColumn [], doneColumn [cardA]])
   \<and> cardCount (projectBoard [toDoColumn [], toDoColumn [], doneColumn [cardA]]) = 1"
  by (simp add: duplicateIdState_def projectBoard_def toDoColumn_def doneColumn_def
      activeBoard_def cardCount_def cardDrop_def onDragEnd_def moveCard_def stateAfter_def
      spliceRemove_def spliceInsert_def relativeStart_def replaceActive_def Let_def
      sortCards_simps)

end
